theory Spec2Isabelle
  imports Main "HOL-Library.Word"
begin

section \<open>The filesystem adapter for targets without a native backend\<close>

text \<open>
  The source is \<^verbatim>\<open>bootstrap/stage0/unknown_fs.cpp\<close>:
  \<^verbatim>\<open>
  ErrorOr<void> make_directory(String const path) {
  {
  warnln(String("NOT IMPLEMENTED: make_directory {}"),path);
  return Error::from_errno(static_cast<i32>(38));
  }
  return {};
  }

  ErrorOr<String> current_directory() {
  {
  warnln(String("NOT IMPLEMENTED: current_directory"));
  return Error::from_errno(static_cast<i32>(38));
  }
  }
  \<close>
  The types \<^verbatim>\<open>i32\<close>, \<^verbatim>\<open>String\<close>, \<^verbatim>\<open>Error\<close>, \<^verbatim>\<open>ErrorOr\<close> and the
  procedure \<^verbatim>\<open>warnln\<close> come from the runtime headers, which are not part of the
  source at hand.
\<close>

subsection \<open>Runtime types\<close>

type_synonym i32 = "32 word"

text \<open>
  Modelled from the spec: the class \<^verbatim>\<open>Error\<close> is declared in the runtime headers.
  The spec describes it as "an error value carrying a numeric error code"; the source
  builds it with \<^verbatim>\<open>Error::from_errno\<close> only.
\<close>

datatype Error = from_errno (code: i32)

text \<open>
  Modelled from the spec: the template \<^verbatim>\<open>ErrorOr<T>\<close> is declared in the runtime
  headers. The spec describes it as "a tagged outcome of exactly one of two shapes":
  a success payload of type \<^verbatim>\<open>T\<close> (\<open>unit\<close> for \<^verbatim>\<open>void\<close>) or an error.
\<close>

type_synonym 'a ErrorOr = "Error + 'a"

definition is_error :: "'a ErrorOr \<Rightarrow> bool" where
  "is_error r = (case r of Inl e \<Rightarrow> True | Inr v \<Rightarrow> False)"

definition has_value :: "'a ErrorOr \<Rightarrow> bool" where
  "has_value r = (case r of Inl e \<Rightarrow> False | Inr v \<Rightarrow> True)"

subsection \<open>The world a call runs in\<close>

text \<open>
  What a call of the adapter can observe or change outside itself: the lines written to
  the diagnostic stream so far (oldest first), the directories of the filesystem, and
  the working directory of the process.
\<close>

record world =
  stderr :: "string list"
  directories :: "string set"
  cwd :: string

text \<open>
  Where control stands inside a function body: still running, left through a
  \<^verbatim>\<open>return\<close> with a result, or aborted by a failed runtime check.
\<close>

datatype 'a control = Running | Returned "'a ErrorOr" | Aborted

record 'a frame =
  world_of :: world
  control :: "'a control"

subsection \<open>Statements\<close>

text \<open>
  Modelled from the spec: the formatter behind \<^verbatim>\<open>warnln\<close> is in the runtime
  headers. The spec gives the emitted line as
  \<^verbatim>\<open>NOT IMPLEMENTED: <operation-name> [<argument>]\<close>, that is, each placeholder
  \<^verbatim>\<open>{}\<close> of the format string stands for the next argument, and the arguments
  themselves are not scanned again. A placeholder with no argument left has no line
  (\<open>None\<close>).
\<close>

fun format :: "string \<Rightarrow> string list \<Rightarrow> string option" where
  "format [] args = Some []"
| "format [c] args = Some [c]"
| "format (c # d # rest) args =
     (if c = CHR ''{'' \<and> d = CHR ''}''
      then (case args of
              [] \<Rightarrow> None
            | a # as \<Rightarrow> map_option (\<lambda>t. a @ t) (format rest as))
      else map_option (\<lambda>t. c # t) (format (d # rest) args))"

text \<open>
  Modelled from the spec: \<^verbatim>\<open>warnln\<close> "writes one human-readable line to an
  operator-visible diagnostic stream". It changes nothing else of the world; a format
  string that does not fit its arguments aborts.
\<close>

definition warnln :: "string \<Rightarrow> string list \<Rightarrow> 'a frame \<Rightarrow> 'a frame" where
  "warnln fmt args s =
     (case format fmt args of
        None \<Rightarrow> s\<lparr>control := Aborted\<rparr>
      | Some line \<Rightarrow> s\<lparr>world_of := (world_of s)\<lparr>stderr := stderr (world_of s) @ [line]\<rparr>\<rparr>)"

text \<open>The statement \<^verbatim>\<open>return r;\<close>.\<close>

definition return_stmt :: "'a ErrorOr \<Rightarrow> 'a frame \<Rightarrow> 'a frame" where
  "return_stmt r s = s\<lparr>control := Returned r\<rparr>"

text \<open>
  Running a sequence of statements from a frame gives the frames passed through, the
  starting frame first. Statements after a \<^verbatim>\<open>return\<close> or an abort are not run.
\<close>

primrec exec :: "('a frame \<Rightarrow> 'a frame) list \<Rightarrow> 'a frame \<Rightarrow> 'a frame list" where
  "exec [] s = [s]"
| "exec (c # cs) s =
     s # (case control s of
            Running \<Rightarrow> exec cs (c s)
          | Returned r \<Rightarrow> []
          | Aborted \<Rightarrow> [])"

definition enter :: "world \<Rightarrow> 'a frame" where
  "enter w = \<lparr>world_of = w, control = Running\<rparr>"

text \<open>
  A call runs the body from a fresh frame and hands back the last frame: the world as
  the call left it, and how the call ended. \<open>Running\<close> in the last frame means that
  control reached the end of the body without a \<^verbatim>\<open>return\<close>, which for a function
  with a result is undefined behaviour.
\<close>

definition call :: "('a frame \<Rightarrow> 'a frame) list \<Rightarrow> world \<Rightarrow> 'a frame" where
  "call body w = last (exec body (enter w))"

subsection \<open>The two operations\<close>

text \<open>
  The inner block of \<^verbatim>\<open>make_directory\<close> (the diagnostic, then the return of the
  error), followed by the \<^verbatim>\<open>return {};\<close> after the block.
\<close>

definition make_directory_body :: "string \<Rightarrow> (unit frame \<Rightarrow> unit frame) list" where
  "make_directory_body path =
     [warnln ''NOT IMPLEMENTED: make_directory {}'' [path],
      return_stmt (Inl (from_errno 38))]
     @ [return_stmt (Inr ())]"

definition make_directory :: "string \<Rightarrow> world \<Rightarrow> unit frame" where
  "make_directory path w = call (make_directory_body path) w"

text \<open>The body of \<^verbatim>\<open>current_directory\<close> is its inner block alone.\<close>

definition current_directory_body :: "(string frame \<Rightarrow> string frame) list" where
  "current_directory_body =
     [warnln ''NOT IMPLEMENTED: current_directory'' [],
      return_stmt (Inl (from_errno 38))]"

definition current_directory :: "world \<Rightarrow> string frame" where
  "current_directory w = call current_directory_body w"

subsection \<open>Observations on a finished call\<close>

text \<open>The result a call returned, if it returned one.\<close>

definition result :: "'a frame \<Rightarrow> 'a ErrorOr option" where
  "result s = (case control s of
                 Running \<Rightarrow> None
               | Returned r \<Rightarrow> Some r
               | Aborted \<Rightarrow> None)"

text \<open>The numeric code of the error a call returned, if it returned an error.\<close>

definition returned_code :: "'a frame \<Rightarrow> i32 option" where
  "returned_code s = (case result s of
                        None \<Rightarrow> None
                      | Some (Inl e) \<Rightarrow> Some (code e)
                      | Some (Inr v) \<Rightarrow> None)"

text \<open>
  Calling an operation again and again, each call in the world the call before left:
  \<open>nth_call f n w\<close> is the last frame of call number \<open>n\<close>, counted from 0.
\<close>

primrec nth_call :: "(world \<Rightarrow> 'a frame) \<Rightarrow> nat \<Rightarrow> world \<Rightarrow> 'a frame" where
  "nth_call f 0 w = f w"
| "nth_call f (Suc n) w = nth_call f n (world_of (f w))"

text \<open>
  The value of \<^verbatim>\<open>ENOSYS\<close> in \<^verbatim>\<open><errno.h>\<close> is the platform's choice: 38 on
  Linux, 78 on Darwin and the BSDs. The source names neither.
\<close>

definition ENOSYS_linux :: i32 where
  "ENOSYS_linux = 38"

definition ENOSYS_darwin :: i32 where
  "ENOSYS_darwin = 78"

section \<open>How the two bodies run\<close>

lemma format_make_directory:
  "format ''NOT IMPLEMENTED: make_directory {}'' [path]
     = Some (''NOT IMPLEMENTED: make_directory '' @ path)"
  by simp

lemma format_current_directory:
  "format ''NOT IMPLEMENTED: current_directory'' []
     = Some ''NOT IMPLEMENTED: current_directory''"
  by simp

lemma exec_make_directory:
  "exec (make_directory_body path) (enter w) =
     [\<lparr>world_of = w, control = Running\<rparr>,
      \<lparr>world_of = w\<lparr>stderr := stderr w @ [''NOT IMPLEMENTED: make_directory '' @ path]\<rparr>,
       control = Running\<rparr>,
      \<lparr>world_of = w\<lparr>stderr := stderr w @ [''NOT IMPLEMENTED: make_directory '' @ path]\<rparr>,
       control = Returned (Inl (from_errno 38))\<rparr>]"
  unfolding make_directory_body_def enter_def
  by (simp add: warnln_def return_stmt_def format_make_directory del: format.simps)

lemma exec_current_directory:
  "exec current_directory_body (enter w) =
     [\<lparr>world_of = w, control = Running\<rparr>,
      \<lparr>world_of = w\<lparr>stderr := stderr w @ [''NOT IMPLEMENTED: current_directory'']\<rparr>,
       control = Running\<rparr>,
      \<lparr>world_of = w\<lparr>stderr := stderr w @ [''NOT IMPLEMENTED: current_directory'']\<rparr>,
       control = Returned (Inl (from_errno 38))\<rparr>]"
  unfolding current_directory_body_def enter_def
  by (simp add: warnln_def return_stmt_def format_current_directory del: format.simps)

lemma make_directory_frame:
  "make_directory path w =
     \<lparr>world_of = w\<lparr>stderr := stderr w @ [''NOT IMPLEMENTED: make_directory '' @ path]\<rparr>,
      control = Returned (Inl (from_errno 38))\<rparr>"
  by (simp add: make_directory_def call_def exec_make_directory)

lemma current_directory_frame:
  "current_directory w =
     \<lparr>world_of = w\<lparr>stderr := stderr w @ [''NOT IMPLEMENTED: current_directory'']\<rparr>,
      control = Returned (Inl (from_errno 38))\<rparr>"
  by (simp add: current_directory_def call_def exec_current_directory)

lemma nth_call_make_directory:
  "control (nth_call (make_directory path) n w) = Returned (Inl (from_errno 38))"
  by (induction n arbitrary: w) (simp_all add: make_directory_frame)

lemma nth_call_current_directory:
  "control (nth_call current_directory n w) = Returned (Inl (from_errno 38))"
  by (induction n arbitrary: w) (simp_all add: current_directory_frame)

section \<open>Properties of the adapter\<close>

text \<open>
  C1. For every path \<open>P\<close> and in every world, \<open>make_directory P\<close> returns the error
  built from code 38 and does not report success; no frame the body passes through
  has returned the success value, so the \<^verbatim>\<open>return {};\<close> after the block is never
  run.
\<close>

theorem make_directory_not_supported:
  "result (make_directory P w) = Some (Inl (from_errno 38))
   \<and> is_error (the (result (make_directory P w)))
   \<and> result (make_directory P w) \<noteq> Some (Inr ())
   \<and> Returned (Inr ()) \<notin> control ` set (exec (make_directory_body P) (enter w))"
  by (simp add: exec_make_directory make_directory_frame result_def is_error_def)

theorem make_directory_not_supported_witness:
  "result (make_directory ''/srv/data''
       \<lparr>stderr = [], directories = {''/'', ''/srv''}, cwd = ''/''\<rparr>)
     = Some (Inl (from_errno 38))
   \<and> Returned (Inr ()) \<notin> control ` set (exec (make_directory_body ''/srv/data'')
       (enter \<lparr>stderr = [], directories = {''/'', ''/srv''}, cwd = ''/''\<rparr>))"
  using make_directory_not_supported
    [of "''/srv/data''" "\<lparr>stderr = [], directories = {''/'', ''/srv''}, cwd = ''/''\<rparr>"]
  by simp

text \<open>
  C2. In every world, \<open>current_directory\<close> returns the error built from code 38, and
  there is no path that it returns as a success payload.
\<close>

theorem current_directory_not_supported:
  "result (current_directory w) = Some (Inl (from_errno 38))
   \<and> is_error (the (result (current_directory w)))
   \<and> (\<forall>p. result (current_directory w) \<noteq> Some (Inr p))
   \<and> (\<forall>p. Returned (Inr p) \<notin> control ` set (exec current_directory_body (enter w)))"
  by (simp add: exec_current_directory current_directory_frame result_def is_error_def)

theorem current_directory_not_supported_witness:
  "result (current_directory \<lparr>stderr = [], directories = {''/''}, cwd = ''/''\<rparr>)
     = Some (Inl (from_errno 38))
   \<and> result (current_directory \<lparr>stderr = [], directories = {''/''}, cwd = ''/''\<rparr>)
     \<noteq> Some (Inr ''/'')"
  using current_directory_not_supported
    [of "\<lparr>stderr = [], directories = {''/''}, cwd = ''/''\<rparr>"]
  by simp

text \<open>
  C3, as stated: the code both operations return is the platform's value of
  \<^verbatim>\<open>ENOSYS\<close>. On a platform whose \<^verbatim>\<open>ENOSYS\<close> is 78 the code returned by
  \<open>make_directory\<close> is not that value.
\<close>

theorem returned_code_platform_ENOSYS_counterexample:
  "returned_code (make_directory ''/tmp/example''
       \<lparr>stderr = [], directories = {''/'', ''/tmp''}, cwd = ''/''\<rparr>)
     \<noteq> Some ENOSYS_darwin"
  by (simp add: make_directory_frame returned_code_def result_def ENOSYS_darwin_def)

text \<open>
  C3, amended. Both operations return one and the same code, for every path and in
  every pair of worlds; that code is 38, the value of \<^verbatim>\<open>ENOSYS\<close> on Linux, and it
  equals a platform's \<^verbatim>\<open>ENOSYS\<close> exactly when that platform's value is 38.
\<close>

theorem returned_code_same_constant:
  "returned_code (make_directory path w) = returned_code (current_directory w')
   \<and> returned_code (make_directory path w) = Some ENOSYS_linux
   \<and> returned_code (current_directory w') = Some ENOSYS_linux
   \<and> (returned_code (make_directory path w) = Some enosys) = (enosys = 38)
   \<and> (returned_code (current_directory w') = Some enosys) = (enosys = 38)"
  by (auto simp add: make_directory_frame current_directory_frame returned_code_def
        result_def ENOSYS_linux_def)

theorem returned_code_same_constant_witness:
  "returned_code (make_directory ''/var/log''
       \<lparr>stderr = [''boot''], directories = {''/''}, cwd = ''/''\<rparr>)
     = returned_code (current_directory \<lparr>stderr = [], directories = {}, cwd = ''/home''\<rparr>)
   \<and> returned_code (make_directory ''/var/log''
       \<lparr>stderr = [''boot''], directories = {''/''}, cwd = ''/''\<rparr>)
     \<noteq> Some 78"
  using returned_code_same_constant
    [of "''/var/log''" "\<lparr>stderr = [''boot''], directories = {''/''}, cwd = ''/''\<rparr>"
        "\<lparr>stderr = [], directories = {}, cwd = ''/home''\<rparr>" 78]
  by (simp add: ENOSYS_linux_def)

text \<open>
  C4. Every call of either operation is safe. It ends by returning the error built
  from code 38: it neither aborts nor runs off the end of its body. In every frame it
  passes through, the directories of the filesystem and the working directory are
  those it started with, and running is the only other state of control; the one
  change to the world is a single line appended to the diagnostic stream.
\<close>

theorem calls_are_safe:
  "control (make_directory path w) = Returned (Inl (from_errno 38))
   \<and> (\<exists>line. world_of (make_directory path w) = w\<lparr>stderr := stderr w @ [line]\<rparr>)
   \<and> (\<forall>s \<in> set (exec (make_directory_body path) (enter w)).
         control s \<in> {Running, Returned (Inl (from_errno 38))}
         \<and> directories (world_of s) = directories w
         \<and> cwd (world_of s) = cwd w)
   \<and> control (current_directory w) = Returned (Inl (from_errno 38))
   \<and> (\<exists>line. world_of (current_directory w) = w\<lparr>stderr := stderr w @ [line]\<rparr>)
   \<and> (\<forall>s \<in> set (exec current_directory_body (enter w)).
         control s \<in> {Running, Returned (Inl (from_errno 38))}
         \<and> directories (world_of s) = directories w
         \<and> cwd (world_of s) = cwd w)"
proof -
  have md: "\<forall>s \<in> set (exec (make_directory_body path) (enter w)).
         control s \<in> {Running, Returned (Inl (from_errno 38))}
         \<and> directories (world_of s) = directories w
         \<and> cwd (world_of s) = cwd w"
    by (simp add: exec_make_directory)
  have cd: "\<forall>s \<in> set (exec current_directory_body (enter w)).
         control s \<in> {Running, Returned (Inl (from_errno 38))}
         \<and> directories (world_of s) = directories w
         \<and> cwd (world_of s) = cwd w"
    by (simp add: exec_current_directory)
  have mr: "control (make_directory path w) = Returned (Inl (from_errno 38))"
    by (simp add: make_directory_frame)
  have mw: "\<exists>line. world_of (make_directory path w) = w\<lparr>stderr := stderr w @ [line]\<rparr>"
    by (rule exI [of _ "''NOT IMPLEMENTED: make_directory '' @ path"])
      (simp add: make_directory_frame)
  have cr: "control (current_directory w) = Returned (Inl (from_errno 38))"
    by (simp add: current_directory_frame)
  have cw: "\<exists>line. world_of (current_directory w) = w\<lparr>stderr := stderr w @ [line]\<rparr>"
    by (rule exI [of _ "''NOT IMPLEMENTED: current_directory''"])
      (simp add: current_directory_frame)
  from mr mw md cr cw cd show ?thesis
    by (intro conjI)
qed

theorem calls_are_safe_witness:
  "control (make_directory ''/opt/tool''
       \<lparr>stderr = [''ready''], directories = {''/'', ''/opt''}, cwd = ''/opt''\<rparr>)
     = Returned (Inl (from_errno 38))
   \<and> control (current_directory
       \<lparr>stderr = [''ready''], directories = {''/'', ''/opt''}, cwd = ''/opt''\<rparr>)
     = Returned (Inl (from_errno 38))
   \<and> directories ` world_of ` set (exec (make_directory_body ''/opt/tool'')
       (enter \<lparr>stderr = [''ready''], directories = {''/'', ''/opt''}, cwd = ''/opt''\<rparr>))
     = {{''/'', ''/opt''}}"
proof -
  let ?w = "\<lparr>stderr = [''ready''], directories = {''/'', ''/opt''}, cwd = ''/opt''\<rparr>"
  note safe = calls_are_safe [of "''/opt/tool''" ?w]
  have "directories ` world_of ` set (exec (make_directory_body ''/opt/tool'') (enter ?w))
          = {{''/'', ''/opt''}}"
    by (simp add: exec_make_directory)
  with safe show ?thesis
    by simp
qed

text \<open>
  C5, as stated: in both scenarios the result carries the platform's "function not
  implemented" code. On a platform whose \<^verbatim>\<open>ENOSYS\<close> is 78, neither the result
  of \<open>make_directory\<close> with the path \<^verbatim>\<open>/tmp/example\<close> nor that of
  \<open>current_directory\<close> is the error with that code.
\<close>

theorem scenario_result_platform_ENOSYS_counterexample:
  "result (make_directory ''/tmp/example''
       \<lparr>stderr = [], directories = {''/'', ''/tmp''}, cwd = ''/''\<rparr>)
     \<noteq> Some (Inl (from_errno ENOSYS_darwin))
   \<and> result (current_directory
       \<lparr>stderr = [], directories = {''/'', ''/tmp''}, cwd = ''/''\<rparr>)
     \<noteq> Some (Inl (from_errno ENOSYS_darwin))"
  by (simp add: make_directory_frame current_directory_frame result_def ENOSYS_darwin_def)

text \<open>
  C5, amended. With the path \<^verbatim>\<open>/tmp/example\<close>, \<open>make_directory\<close> appends exactly
  the one line \<^verbatim>\<open>NOT IMPLEMENTED: make_directory /tmp/example\<close> to the diagnostic
  stream, and \<open>current_directory\<close> appends exactly the one line
  \<^verbatim>\<open>NOT IMPLEMENTED: current_directory\<close>. Both return the error with code 38. That
  is the "function not implemented" code of Linux, and it is the code \<^verbatim>\<open>ENOSYS\<close>
  of a platform exactly when that platform's value is 38.
\<close>

theorem scenario_diagnostics:
  "stderr (world_of (make_directory ''/tmp/example'' w))
     = stderr w @ [''NOT IMPLEMENTED: make_directory /tmp/example'']
   \<and> result (make_directory ''/tmp/example'' w) = Some (Inl (from_errno 38))
   \<and> result (make_directory ''/tmp/example'' w) = Some (Inl (from_errno ENOSYS_linux))
   \<and> (result (make_directory ''/tmp/example'' w) = Some (Inl (from_errno enosys)))
       = (enosys = 38)
   \<and> stderr (world_of (current_directory w))
     = stderr w @ [''NOT IMPLEMENTED: current_directory'']
   \<and> result (current_directory w) = Some (Inl (from_errno 38))
   \<and> result (current_directory w) = Some (Inl (from_errno ENOSYS_linux))
   \<and> (result (current_directory w) = Some (Inl (from_errno enosys)))
       = (enosys = 38)"
proof -
  have md: "result (make_directory ''/tmp/example'' w) = Some (Inl (from_errno 38))"
    by (simp add: make_directory_frame result_def)
  have cd: "result (current_directory w) = Some (Inl (from_errno 38))"
    by (simp add: current_directory_frame result_def)
  have "stderr (world_of (make_directory ''/tmp/example'' w))
          = stderr w @ [''NOT IMPLEMENTED: make_directory /tmp/example'']"
    by (simp add: make_directory_frame)
  moreover have "stderr (world_of (current_directory w))
          = stderr w @ [''NOT IMPLEMENTED: current_directory'']"
    by (simp add: current_directory_frame)
  moreover have "(Some (Inl (from_errno 38)) = Some (Inl (from_errno enosys) :: unit ErrorOr))
          = (enosys = 38)"
    by auto
  moreover have "(Some (Inl (from_errno 38)) = Some (Inl (from_errno enosys) :: string ErrorOr))
          = (enosys = 38)"
    by auto
  ultimately show ?thesis
    unfolding md cd by (simp add: ENOSYS_linux_def)
qed

theorem scenario_diagnostics_witness:
  "stderr (world_of (make_directory ''/tmp/example''
       \<lparr>stderr = [], directories = {''/'', ''/tmp''}, cwd = ''/''\<rparr>))
     = [''NOT IMPLEMENTED: make_directory /tmp/example'']
   \<and> stderr (world_of (current_directory
       \<lparr>stderr = [], directories = {''/'', ''/tmp''}, cwd = ''/''\<rparr>))
     = [''NOT IMPLEMENTED: current_directory'']
   \<and> result (make_directory ''/tmp/example''
       \<lparr>stderr = [], directories = {''/'', ''/tmp''}, cwd = ''/''\<rparr>)
     = Some (Inl (from_errno 38))
   \<and> result (current_directory
       \<lparr>stderr = [], directories = {''/'', ''/tmp''}, cwd = ''/''\<rparr>)
     \<noteq> Some (Inl (from_errno 78))"
  using scenario_diagnostics
    [of "\<lparr>stderr = [], directories = {''/'', ''/tmp''}, cwd = ''/''\<rparr>" 78]
  by simp

text \<open>
  C6. For every path \<open>P\<close>, one call of \<open>make_directory\<close> passes through exactly three
  frames. In the first nothing has happened yet. In the second the diagnostic line,
  which names the operation and \<open>P\<close>, is on the stream and control is still running.
  Only in the third is the error returned, and the world is that of the second: the
  emission comes before the error result.
\<close>

theorem diagnostic_before_error:
  "length (exec (make_directory_body P) (enter w)) = 3
   \<and> exec (make_directory_body P) (enter w) ! 0 = enter w
   \<and> control (exec (make_directory_body P) (enter w) ! 1) = Running
   \<and> stderr (world_of (exec (make_directory_body P) (enter w) ! 1))
       = stderr w @ [''NOT IMPLEMENTED: make_directory '' @ P]
   \<and> control (exec (make_directory_body P) (enter w) ! 2)
       = Returned (Inl (from_errno 38))
   \<and> world_of (exec (make_directory_body P) (enter w) ! 2)
       = world_of (exec (make_directory_body P) (enter w) ! 1)
   \<and> make_directory P w = exec (make_directory_body P) (enter w) ! 2"
  unfolding exec_make_directory make_directory_frame
  by (simp add: enter_def)

theorem diagnostic_before_error_witness:
  "control (exec (make_directory_body ''/mnt/a'')
       (enter \<lparr>stderr = [], directories = {''/''}, cwd = ''/''\<rparr>) ! 1) = Running
   \<and> stderr (world_of (exec (make_directory_body ''/mnt/a'')
       (enter \<lparr>stderr = [], directories = {''/''}, cwd = ''/''\<rparr>) ! 1))
       = [''NOT IMPLEMENTED: make_directory /mnt/a'']
   \<and> control (exec (make_directory_body ''/mnt/a'')
       (enter \<lparr>stderr = [], directories = {''/''}, cwd = ''/''\<rparr>) ! 2)
       = Returned (Inl (from_errno 38))"
  using diagnostic_before_error
    [of "''/mnt/a''" "\<lparr>stderr = [], directories = {''/''}, cwd = ''/''\<rparr>"]
  by simp

text \<open>
  C7. Call either operation again and again, each call in the world the one before
  left (whose diagnostic stream has grown). For every \<open>n\<close>, the result of call
  number \<open>n\<close> is the result of the first call, and its error code is 38.
\<close>

theorem repeated_calls_same_result:
  "result (nth_call (make_directory path) n w) = result (make_directory path w)
   \<and> returned_code (nth_call (make_directory path) n w) = Some 38
   \<and> result (nth_call current_directory n w) = result (current_directory w)
   \<and> returned_code (nth_call current_directory n w) = Some 38"
proof -
  have "result (nth_call (make_directory path) n w) = Some (Inl (from_errno 38))"
    by (simp add: result_def nth_call_make_directory)
  moreover have "result (make_directory path w) = Some (Inl (from_errno 38))"
    by (simp add: result_def make_directory_frame)
  moreover have "result (nth_call current_directory n w) = Some (Inl (from_errno 38))"
    by (simp add: result_def nth_call_current_directory)
  moreover have "result (current_directory w) = Some (Inl (from_errno 38))"
    by (simp add: result_def current_directory_frame)
  ultimately show ?thesis
    by (simp add: returned_code_def)
qed

theorem repeated_calls_same_result_witness:
  "result (nth_call (make_directory ''/data'') 4
       \<lparr>stderr = [], directories = {''/''}, cwd = ''/''\<rparr>)
     = result (make_directory ''/data'' \<lparr>stderr = [], directories = {''/''}, cwd = ''/''\<rparr>)
   \<and> returned_code (nth_call current_directory 7
       \<lparr>stderr = [], directories = {''/''}, cwd = ''/''\<rparr>) = Some 38"
  using repeated_calls_same_result
    [of "''/data''" 4 "\<lparr>stderr = [], directories = {''/''}, cwd = ''/''\<rparr>"]
    repeated_calls_same_result
    [of "''/data''" 7 "\<lparr>stderr = [], directories = {''/''}, cwd = ''/''\<rparr>"]
  by simp

text \<open>
  C8. The empty path is not a special case. For every path \<open>p\<close>, the empty one too,
  \<open>make_directory p\<close> ends as it does for \<^verbatim>\<open>/tmp/example\<close>, with the same error
  code, and appends the line \<^verbatim>\<open>NOT IMPLEMENTED: make_directory \<close> followed by
  \<open>p\<close>; for the empty path that is the line with nothing after the blank.
\<close>

theorem empty_path_not_special:
  "control (make_directory p w) = control (make_directory ''/tmp/example'' w)
   \<and> returned_code (make_directory p w) = returned_code (make_directory ''/tmp/example'' w)
   \<and> stderr (world_of (make_directory p w))
       = stderr w @ [''NOT IMPLEMENTED: make_directory '' @ p]
   \<and> control (make_directory [] w) = control (make_directory ''/tmp/example'' w)
   \<and> returned_code (make_directory [] w) = Some 38
   \<and> stderr (world_of (make_directory [] w)) = stderr w @ [''NOT IMPLEMENTED: make_directory '']
   \<and> directories (world_of (make_directory [] w)) = directories w
   \<and> cwd (world_of (make_directory [] w)) = cwd w"
  by (simp add: make_directory_frame returned_code_def result_def)

theorem empty_path_not_special_witness:
  "control (make_directory [] \<lparr>stderr = [''x''], directories = {}, cwd = ''/''\<rparr>)
     = control (make_directory ''/tmp/example''
         \<lparr>stderr = [''x''], directories = {}, cwd = ''/''\<rparr>)
   \<and> stderr (world_of (make_directory []
         \<lparr>stderr = [''x''], directories = {}, cwd = ''/''\<rparr>))
     = [''x'', ''NOT IMPLEMENTED: make_directory '']"
  using empty_path_not_special
    [of "[]" "\<lparr>stderr = [''x''], directories = {}, cwd = ''/''\<rparr>"]
  by simp

text \<open>
  C9. A result is an error or a success value and never both. Every call of either
  operation returns a result, and that result is of exactly one of the two shapes
  (the error shape).
\<close>

theorem result_exclusive:
  "is_error r \<noteq> has_value r
   \<and> (\<exists>m. result (make_directory path w) = Some m \<and> is_error m \<and> \<not> has_value m)
   \<and> (\<exists>c. result (current_directory w) = Some c \<and> is_error c \<and> \<not> has_value c)"
proof -
  have "is_error r \<noteq> has_value r"
    by (cases r) (simp_all add: is_error_def has_value_def)
  moreover have "result (make_directory path w) = Some (Inl (from_errno 38))"
    by (simp add: result_def make_directory_frame)
  moreover have "result (current_directory w) = Some (Inl (from_errno 38))"
    by (simp add: result_def current_directory_frame)
  ultimately show ?thesis
    by (simp add: is_error_def has_value_def)
qed

theorem result_exclusive_witness:
  "is_error (Inr ''/home'' :: string ErrorOr) \<noteq> has_value (Inr ''/home'' :: string ErrorOr)
   \<and> (\<exists>m. result (make_directory ''/a'' \<lparr>stderr = [], directories = {}, cwd = ''/''\<rparr>)
            = Some m \<and> is_error m \<and> \<not> has_value m)"
  using result_exclusive
    [of "Inr ''/home'' :: string ErrorOr" "''/a''"
        "\<lparr>stderr = [], directories = {}, cwd = ''/''\<rparr>"]
  by simp

text \<open>
  C10. For every path and in every world, the error both operations return is the one
  built by \<open>from_errno\<close> from the literal 38 written in the body; read as a signed
  integer its code is 38. No value of the platform enters the two definitions.
\<close>

theorem error_code_literal_38:
  "control (make_directory path w) = Returned (Inl (from_errno 38))
   \<and> map_option sint (returned_code (make_directory path w)) = Some 38
   \<and> control (current_directory w) = Returned (Inl (from_errno 38))
   \<and> map_option sint (returned_code (current_directory w)) = Some 38"
  by (simp add: make_directory_frame current_directory_frame returned_code_def result_def)

theorem error_code_literal_38_witness:
  "map_option sint (returned_code (make_directory ''/x''
       \<lparr>stderr = [], directories = {}, cwd = ''/''\<rparr>)) = Some 38
   \<and> map_option sint (returned_code (current_directory
       \<lparr>stderr = [], directories = {}, cwd = ''/''\<rparr>)) = Some 38"
  using error_code_literal_38
    [of "''/x''" "\<lparr>stderr = [], directories = {}, cwd = ''/''\<rparr>"]
  by simp

end
